theory Spec2Isabelle
  imports Complex_Main
begin

section \<open>Values of the language\<close>

text \<open>
  The module \<^verbatim>\<open>src/lib/flowise-config.ts\<close> is TypeScript. Its values are modelled as
  follows.
  \<^item> A \<^verbatim>\<open>string\<close> is a \<open>string\<close>; only emptiness, concatenation and a prefix
    test are used.
  \<^item> A \<^verbatim>\<open>number\<close> is a double. No arithmetic is done on it: only its truthiness is
    read (by \<^verbatim>\<open>||\<close>), so the finite values are taken from \<open>real\<close> (a superset of
    the finite doubles, \<open>Finite 0\<close> being \<^verbatim>\<open>+0\<close>) and the four remaining values
    are constructors of their own.
  \<^item> \<^verbatim>\<open>T | undefined\<close> is \<open>T option\<close>, \<open>None\<close> being \<^verbatim>\<open>undefined\<close>. Reading
    a property that an object does not have gives \<^verbatim>\<open>undefined\<close> as well.
\<close>

datatype number = Finite real | NegZero | PosInfinity | NegInfinity | NaN

text \<open>The falsy numbers are \<^verbatim>\<open>+0\<close>, \<^verbatim>\<open>-0\<close> and \<^verbatim>\<open>NaN\<close>.\<close>

fun truthy_number :: "number \<Rightarrow> bool" where
  "truthy_number (Finite r) = (r \<noteq> 0)"
| "truthy_number NegZero = False"
| "truthy_number PosInfinity = True"
| "truthy_number NegInfinity = True"
| "truthy_number NaN = False"

text \<open>The only falsy string is the empty one.\<close>

definition truthy_string :: "string \<Rightarrow> bool" where
  "truthy_string s = (s \<noteq> [])"

text \<open>
  \<^verbatim>\<open>x || d\<close> is \<^verbatim>\<open>x\<close> when \<^verbatim>\<open>x\<close> is truthy and \<^verbatim>\<open>d\<close> otherwise;
  \<^verbatim>\<open>undefined\<close> is falsy.
\<close>

definition or_number :: "number option \<Rightarrow> number \<Rightarrow> number" where
  "or_number x d = (case x of None \<Rightarrow> d | Some n \<Rightarrow> if truthy_number n then n else d)"

definition or_string :: "string option \<Rightarrow> string \<Rightarrow> string" where
  "or_string x d = (case x of None \<Rightarrow> d | Some s \<Rightarrow> if truthy_string s then s else d)"

text \<open>\<^verbatim>\<open>x ?? d\<close> is \<^verbatim>\<open>d\<close> only when \<^verbatim>\<open>x\<close> is \<^verbatim>\<open>undefined\<close> (or \<^verbatim>\<open>null\<close>, which
  the types of this module exclude).\<close>

definition nullish :: "'a option \<Rightarrow> 'a \<Rightarrow> 'a" where
  "nullish x d = (case x of None \<Rightarrow> d | Some v \<Rightarrow> v)"

text \<open>\<^verbatim>\<open>s.startsWith(p)\<close>.\<close>

definition startsWith :: "string \<Rightarrow> string \<Rightarrow> bool" where
  "startsWith s p = (take (length p) s = p)"

text \<open>
  A template literal \<^verbatim>\<open>`${v}`\<close> renders a string as itself and \<^verbatim>\<open>undefined\<close> as
  the nine characters \<^verbatim>\<open>undefined\<close>.
\<close>

definition template :: "string option \<Rightarrow> string" where
  "template v = (case v of None \<Rightarrow> ''undefined'' | Some s \<Rightarrow> s)"

section \<open>Objects with string values\<close>

text \<open>
  \<^verbatim>\<open>FlowiseApiEndpoints\<close> and \<^verbatim>\<open>Record<string, string>\<close> are objects whose own
  properties are strings: a list of pairs in insertion order. \<^verbatim>\<open>obj[k]\<close> reads the
  own property \<^verbatim>\<open>k\<close>; when there is none it reads what the object inherits under that
  name from \<^verbatim>\<open>Object.prototype\<close>. The text that an engine prints for such an
  inherited member is not fixed by this module, so the inherited members come as a
  parameter \<open>inh\<close>, from a name to the rendering of the member.
\<close>

type_synonym js_object = "(string \<times> string) list"

definition get_property :: "(string \<rightharpoonup> string) \<Rightarrow> js_object \<Rightarrow> string \<Rightarrow> string option" where
  "get_property inh obj k = (case map_of obj k of Some v \<Rightarrow> Some v | None \<Rightarrow> inh k)"

text \<open>\<^verbatim>\<open>obj[k] = v\<close> replaces the own property in place, or appends it.\<close>

fun set_property :: "js_object \<Rightarrow> string \<Rightarrow> string \<Rightarrow> js_object" where
  "set_property [] k v = [(k, v)]"
| "set_property ((k', v') # obj) k v =
     (if k' = k then (k, v) # obj else (k', v') # set_property obj k v)"

section \<open>The configuration record and the endpoint table\<close>

record FlowiseConfig =
  apiKey :: string
  baseUrl :: string
  timeout :: "number option"
  retries :: "number option"
  enableLogging :: "bool option"
  enableCaching :: "bool option"

text \<open>
  \<^verbatim>\<open>Partial<FlowiseConfig>\<close>: every property may be absent. A property that is present
  carries a value of the field's type; for the four optional fields that type includes
  \<^verbatim>\<open>undefined\<close>, and an explicit \<^verbatim>\<open>undefined\<close> is copied by a spread like any other
  value. A present \<^verbatim>\<open>apiKey\<close> or \<^verbatim>\<open>baseUrl\<close> is a string, as \<^verbatim>\<open>FlowiseConfig\<close>
  declares the two fields.
\<close>

datatype 'a optional = Absent | Present 'a

record PartialFlowiseConfig =
  p_apiKey :: "string optional"
  p_baseUrl :: "string optional"
  p_timeout :: "number option optional"
  p_retries :: "number option optional"
  p_enableLogging :: "bool option optional"
  p_enableCaching :: "bool option optional"

text \<open>The object literal \<^verbatim>\<open>{}\<close>.\<close>

definition empty_partial :: PartialFlowiseConfig where
  "empty_partial =
     \<lparr>p_apiKey = Absent, p_baseUrl = Absent, p_timeout = Absent, p_retries = Absent,
      p_enableLogging = Absent, p_enableCaching = Absent\<rparr>"

text \<open>The two environment variables that the module reads when it is loaded.\<close>

record process_env =
  FLOWISE_API_KEY :: "string option"
  FLOWISE_BASE_URL :: "string option"

definition DEFAULT_FLOWISE_CONFIG :: "process_env \<Rightarrow> FlowiseConfig" where
  "DEFAULT_FLOWISE_CONFIG env =
     \<lparr>apiKey = or_string (FLOWISE_API_KEY env) '''',
      baseUrl = or_string (FLOWISE_BASE_URL env) ''https://api.flowiseai.com'',
      timeout = Some (Finite 30000),
      retries = Some (Finite 3),
      enableLogging = Some True,
      enableCaching = Some True\<rparr>"

definition FLOWISE_ENDPOINTS :: js_object where
  "FLOWISE_ENDPOINTS =
     [(''assistants'', ''/api/v1/assistants''),
      (''attachments'', ''/api/v1/attachments''),
      (''documentStore'', ''/api/v1/documents''),
      (''leads'', ''/api/v1/leads''),
      (''ping'', ''/api/v1/ping''),
      (''prediction'', ''/api/v1/prediction''),
      (''tools'', ''/api/v1/tools''),
      (''upsertHistory'', ''/api/v1/upsert-history''),
      (''variables'', ''/api/v1/variables''),
      (''vectorUpsert'', ''/api/v1/vector-upsert'')]"

text \<open>
  The spread \<^verbatim>\<open>{ ...a, ...b }\<close> of a partial record \<^verbatim>\<open>b\<close> over a full record
  \<^verbatim>\<open>a\<close>: each property that \<^verbatim>\<open>b\<close> has replaces the one of \<^verbatim>\<open>a\<close>.
\<close>

fun spread_field :: "'a \<Rightarrow> 'a optional \<Rightarrow> 'a" where
  "spread_field old Absent = old"
| "spread_field old (Present v) = v"

definition spread :: "FlowiseConfig \<Rightarrow> PartialFlowiseConfig \<Rightarrow> FlowiseConfig" where
  "spread a b =
     \<lparr>apiKey = spread_field (apiKey a) (p_apiKey b),
      baseUrl = spread_field (baseUrl a) (p_baseUrl b),
      timeout = spread_field (timeout a) (p_timeout b),
      retries = spread_field (retries a) (p_retries b),
      enableLogging = spread_field (enableLogging a) (p_enableLogging b),
      enableCaching = spread_field (enableCaching a) (p_enableCaching b)\<rparr>"

section \<open>The class FlowiseConfigManager\<close>

text \<open>The two private fields of an instance. Methods take the instance and, when they
  assign to a field, return the instance updated.\<close>

record FlowiseConfigManager =
  config :: FlowiseConfig
  endpoints :: js_object

text \<open>The constructor; its parameter defaults to \<^verbatim>\<open>{}\<close> when the argument is left
  out.\<close>

definition "constructor" :: "process_env \<Rightarrow> PartialFlowiseConfig option \<Rightarrow> FlowiseConfigManager" where
  "constructor env arg =
     (let config' = (case arg of None \<Rightarrow> empty_partial | Some c \<Rightarrow> c)
      in \<lparr>config = spread (DEFAULT_FLOWISE_CONFIG env) config',
          endpoints = FLOWISE_ENDPOINTS\<rparr>)"

definition getConfig :: "FlowiseConfigManager \<Rightarrow> FlowiseConfig" where
  "getConfig m = config m"

definition getEndpoints :: "FlowiseConfigManager \<Rightarrow> js_object" where
  "getEndpoints m = endpoints m"

definition buildUrl ::
  "(string \<rightharpoonup> string) \<Rightarrow> FlowiseConfigManager \<Rightarrow> string \<Rightarrow> string option \<Rightarrow> string" where
  "buildUrl inh m endpoint path =
     (let baseUrl' = baseUrl (config m);
          endpointPath = get_property inh (endpoints m) endpoint;
          fullPath = (case path of
                        None \<Rightarrow> endpointPath
                      | Some p \<Rightarrow> if truthy_string p
                                  then Some (template endpointPath @ ''/'' @ p)
                                  else endpointPath)
      in baseUrl' @ template fullPath)"

definition getHeaders :: "FlowiseConfigManager \<Rightarrow> js_object" where
  "getHeaders m =
     (let headers = [(''Content-Type'', ''application/json''),
                     (''User-Agent'', ''Zania-Platform/1.0.0'')]
      in if truthy_string (apiKey (config m))
         then set_property headers ''Authorization'' (''Bearer '' @ apiKey (config m))
         else headers)"

record validation =
  valid :: bool
  errors :: "string list"

text \<open>\<^verbatim>\<open>errors.push(e)\<close> appends; the three tests run one after the other.\<close>

definition validate :: "FlowiseConfigManager \<Rightarrow> validation" where
  "validate m =
     (let errors0 = [];
          errors1 = (if \<not> truthy_string (apiKey (config m))
                     then errors0 @ [''FLOWISE_API_KEY is required''] else errors0);
          errors2 = (if \<not> truthy_string (baseUrl (config m))
                     then errors1 @ [''FLOWISE_BASE_URL is required''] else errors1);
          errors3 = (if \<not> startsWith (baseUrl (config m)) ''http''
                     then errors2 @ [''FLOWISE_BASE_URL must start with http:// or https://'']
                     else errors2)
      in \<lparr>valid = (length errors3 = 0), errors = errors3\<rparr>)"

definition updateConfig :: "FlowiseConfigManager \<Rightarrow> PartialFlowiseConfig \<Rightarrow> FlowiseConfigManager" where
  "updateConfig m newConfig = m\<lparr>config := spread (config m) newConfig\<rparr>"

definition getBaseUrl :: "FlowiseConfigManager \<Rightarrow> string" where
  "getBaseUrl m = baseUrl (config m)"

definition getApiKey :: "FlowiseConfigManager \<Rightarrow> string" where
  "getApiKey m = apiKey (config m)"

definition getTimeout :: "FlowiseConfigManager \<Rightarrow> number" where
  "getTimeout m = or_number (timeout (config m)) (Finite 30000)"

definition getRetries :: "FlowiseConfigManager \<Rightarrow> number" where
  "getRetries m = or_number (retries (config m)) (Finite 3)"

definition isLoggingEnabled :: "FlowiseConfigManager \<Rightarrow> bool" where
  "isLoggingEnabled m = nullish (enableLogging (config m)) True"

definition isCachingEnabled :: "FlowiseConfigManager \<Rightarrow> bool" where
  "isCachingEnabled m = nullish (enableCaching (config m)) True"

text \<open>The instance that the module exports, and the factory.\<close>

definition flowiseConfig :: "process_env \<Rightarrow> FlowiseConfigManager" where
  "flowiseConfig env = constructor env None"

definition createFlowiseConfig :: "process_env \<Rightarrow> PartialFlowiseConfig option \<Rightarrow> FlowiseConfigManager" where
  "createFlowiseConfig env arg = constructor env arg"

section \<open>What the specification says of an unknown endpoint name\<close>

text \<open>
  The module declares no error class and \<^verbatim>\<open>buildUrl\<close> has no \<^verbatim>\<open>throw\<close>. The
  specification describes the method with an error of its own; the next definition
  follows the words of the specification, not the source, and serves only to compare the
  two: "looks up endpointName in the EndpointTable (fails with an UnknownEndpoint error
  if the name is not one of the fixed ten), concatenates baseUrl + endpointPath, and if a
  sub-path is supplied, appends / + subPath".
\<close>

datatype error = UnknownEndpoint

definition buildUrl_spec :: "FlowiseConfigManager \<Rightarrow> string \<Rightarrow> string option \<Rightarrow> error + string" where
  "buildUrl_spec m endpointName subPath =
     (case map_of FLOWISE_ENDPOINTS endpointName of
        None \<Rightarrow> Inl UnknownEndpoint
      | Some endpointPath \<Rightarrow>
          Inr (case subPath of
                 None \<Rightarrow> baseUrl (config m) @ endpointPath
               | Some s \<Rightarrow> baseUrl (config m) @ endpointPath @ ''/'' @ s))"

section \<open>Basic facts\<close>

text \<open>
  The field \<^verbatim>\<open>endpoints\<close> is assigned by the constructor and by no method, so every
  instance holds the table \<open>FLOWISE_ENDPOINTS\<close>. The theorems on \<open>buildUrl\<close> take
  this as their first hypothesis.
\<close>

lemma constructor_endpoints [simp]: "endpoints (constructor env arg) = FLOWISE_ENDPOINTS"
  by (simp add: constructor_def Let_def)

lemma updateConfig_endpoints [simp]: "endpoints (updateConfig m newConfig) = endpoints m"
  by (simp add: updateConfig_def)

lemma flowiseConfig_endpoints [simp]: "endpoints (flowiseConfig env) = FLOWISE_ENDPOINTS"
  by (simp add: flowiseConfig_def)

lemma flowiseConfig_config:
  "config (flowiseConfig \<lparr>FLOWISE_API_KEY = None, FLOWISE_BASE_URL = None\<rparr>) =
     \<lparr>apiKey = '''', baseUrl = ''https://api.flowiseai.com'',
      timeout = Some (Finite 30000), retries = Some (Finite 3),
      enableLogging = Some True, enableCaching = Some True\<rparr>"
  by (simp add: flowiseConfig_def constructor_def Let_def spread_def empty_partial_def
      DEFAULT_FLOWISE_CONFIG_def or_string_def)

lemma FLOWISE_ENDPOINTS_distinct: "distinct (map fst FLOWISE_ENDPOINTS)"
  by (simp add: FLOWISE_ENDPOINTS_def)

lemma FLOWISE_ENDPOINTS_row:
  assumes "(name, endpointPath) \<in> set FLOWISE_ENDPOINTS"
  shows "map_of FLOWISE_ENDPOINTS name = Some endpointPath"
  using FLOWISE_ENDPOINTS_distinct assms by (rule map_of_is_SomeI)

lemma FLOWISE_ENDPOINTS_no_row:
  assumes "name \<notin> fst ` set FLOWISE_ENDPOINTS"
  shows "map_of FLOWISE_ENDPOINTS name = None"
  using assms by (simp add: map_of_eq_None_iff)

text \<open>The value of \<open>buildUrl\<close> in one expression: the base URL, the rendering of the
  property read, and the sub-path behind a slash when it is truthy.\<close>

lemma buildUrl_eq:
  "buildUrl inh m endpoint path =
     baseUrl (config m) @ template (get_property inh (endpoints m) endpoint) @
       (case path of None \<Rightarrow> [] | Some p \<Rightarrow> if p = [] then [] else ''/'' @ p)"
  by (simp add: buildUrl_def Let_def template_def truthy_string_def split: option.splits)

lemma buildUrl_row:
  assumes "endpoints m = FLOWISE_ENDPOINTS" and "(name, endpointPath) \<in> set FLOWISE_ENDPOINTS"
  shows "buildUrl inh m name path =
     baseUrl (config m) @ endpointPath @
       (case path of None \<Rightarrow> [] | Some p \<Rightarrow> if p = [] then [] else ''/'' @ p)"
  by (simp add: buildUrl_eq assms(1) get_property_def FLOWISE_ENDPOINTS_row [OF assms(2)]
      template_def)

lemma ping_row: "(''ping'', ''/api/v1/ping'') \<in> set FLOWISE_ENDPOINTS"
  by (simp add: FLOWISE_ENDPOINTS_def)

lemma prediction_row: "(''prediction'', ''/api/v1/prediction'') \<in> set FLOWISE_ENDPOINTS"
  by (simp add: FLOWISE_ENDPOINTS_def)

lemma notARealEndpoint_no_row: "''notARealEndpoint'' \<notin> fst ` set FLOWISE_ENDPOINTS"
  by (simp add: FLOWISE_ENDPOINTS_def)

section \<open>Building a URL\<close>

text \<open>
  C1. Claim: for every endpoint name that is not one of the ten fixed names of the table,
  \<open>buildUrl\<close> fails with an UnknownEndpoint error. At the name
  \<^verbatim>\<open>notARealEndpoint\<close>, which the table does not have (and does not inherit:
  \<open>Map.empty\<close> below), the specification's function fails and the method returns a
  string, the base URL followed by the rendering of \<^verbatim>\<open>undefined\<close>.
\<close>

theorem buildUrl_unknown_counterexample:
  "''notARealEndpoint'' \<notin> fst ` set FLOWISE_ENDPOINTS \<and>
   buildUrl_spec (flowiseConfig \<lparr>FLOWISE_API_KEY = None, FLOWISE_BASE_URL = None\<rparr>)
     ''notARealEndpoint'' None = Inl UnknownEndpoint \<and>
   buildUrl Map.empty (flowiseConfig \<lparr>FLOWISE_API_KEY = None, FLOWISE_BASE_URL = None\<rparr>)
     ''notARealEndpoint'' None = ''https://api.flowiseai.comundefined'' \<and>
   buildUrl_spec (flowiseConfig \<lparr>FLOWISE_API_KEY = None, FLOWISE_BASE_URL = None\<rparr>)
     ''notARealEndpoint'' None \<noteq>
   Inr (buildUrl Map.empty (flowiseConfig \<lparr>FLOWISE_API_KEY = None, FLOWISE_BASE_URL = None\<rparr>)
     ''notARealEndpoint'' None)"
  by (simp add: notARealEndpoint_no_row buildUrl_spec_def buildUrl_eq get_property_def
      FLOWISE_ENDPOINTS_no_row [OF notARealEndpoint_no_row] flowiseConfig_config template_def)

text \<open>
  C1, amended. For every endpoint name that is not one of the ten fixed names,
  \<open>buildUrl\<close> does not fail: it returns the base URL, then the rendering of what the
  lookup gives, which is the text \<^verbatim>\<open>undefined\<close> for a name that the table does not
  inherit either, then the sub-path behind a slash when a non-empty sub-path is given.
  The type of the parameter, \<^verbatim>\<open>keyof FlowiseApiEndpoints\<close>, is what keeps such a name
  out, at compile time.
\<close>

theorem buildUrl_unknown:
  assumes "endpoints m = FLOWISE_ENDPOINTS" and "name \<notin> fst ` set FLOWISE_ENDPOINTS"
  shows "buildUrl inh m name path =
      baseUrl (config m) @ template (inh name) @
        (case path of None \<Rightarrow> [] | Some p \<Rightarrow> if p = [] then [] else ''/'' @ p) \<and>
    (inh name = None \<longrightarrow>
      buildUrl inh m name None = baseUrl (config m) @ ''undefined'' \<and>
      (\<forall>p. p \<noteq> [] \<longrightarrow>
        buildUrl inh m name (Some p) = baseUrl (config m) @ ''undefined/'' @ p))"
proof -
  have none: "map_of FLOWISE_ENDPOINTS name = None"
    using assms(2) by (rule FLOWISE_ENDPOINTS_no_row)
  have read: "get_property inh (endpoints m) name = inh name"
    by (simp add: get_property_def assms(1) none)
  have code: "buildUrl inh m name q =
      baseUrl (config m) @ template (inh name) @
        (case q of None \<Rightarrow> [] | Some p \<Rightarrow> if p = [] then [] else ''/'' @ p)" for q
    by (simp add: buildUrl_eq read)
  show ?thesis
    by (simp add: code template_def)
qed

theorem buildUrl_unknown_witness:
  "buildUrl Map.empty (flowiseConfig \<lparr>FLOWISE_API_KEY = None, FLOWISE_BASE_URL = None\<rparr>)
     ''notARealEndpoint'' (Some ''abc123'') = ''https://api.flowiseai.comundefined/abc123''"
  using buildUrl_unknown [where path = "Some ''abc123''" and inh = Map.empty,
      OF flowiseConfig_endpoints [of "\<lparr>FLOWISE_API_KEY = None, FLOWISE_BASE_URL = None\<rparr>"]
        notARealEndpoint_no_row]
  by (simp add: flowiseConfig_config template_def)

text \<open>
  C3. Claim: for every configuration record and every endpoint name among the fixed ten,
  \<open>buildUrl\<close> without a sub-path returns the base URL followed by the endpoint path,
  and with a sub-path supplied it returns the base URL, the endpoint path, a slash and
  the sub-path. With the empty string supplied as the sub-path the method appends
  nothing, so the result is not the one that ends in a slash.
\<close>

theorem buildUrl_supplied_counterexample:
  "(''ping'', ''/api/v1/ping'') \<in> set FLOWISE_ENDPOINTS \<and>
   buildUrl Map.empty (flowiseConfig \<lparr>FLOWISE_API_KEY = None, FLOWISE_BASE_URL = None\<rparr>)
     ''ping'' (Some '''') = ''https://api.flowiseai.com/api/v1/ping'' \<and>
   buildUrl Map.empty (flowiseConfig \<lparr>FLOWISE_API_KEY = None, FLOWISE_BASE_URL = None\<rparr>)
     ''ping'' (Some '''') \<noteq>
   baseUrl (config (flowiseConfig \<lparr>FLOWISE_API_KEY = None, FLOWISE_BASE_URL = None\<rparr>)) @
     ''/api/v1/ping'' @ ''/'' @ ''''"
  by (simp add: ping_row buildUrl_row [OF flowiseConfig_endpoints ping_row] flowiseConfig_config)

text \<open>
  C3, amended. For every configuration record and every endpoint name among the fixed
  ten, \<open>buildUrl\<close> without a sub-path returns the base URL followed by the endpoint
  path, and with a non-empty sub-path supplied it returns the base URL, the endpoint
  path, a slash and the sub-path; \<^verbatim>\<open>buildUrl("ping")\<close> with the base URL
  \<^verbatim>\<open>https://api.flowiseai.com\<close> returns \<^verbatim>\<open>https://api.flowiseai.com/api/v1/ping\<close>,
  and \<^verbatim>\<open>buildUrl("prediction", "abc123")\<close> returns the base URL followed by
  \<^verbatim>\<open>/api/v1/prediction/abc123\<close>.
\<close>

theorem buildUrl_known:
  assumes "endpoints m = FLOWISE_ENDPOINTS" and "(name, endpointPath) \<in> set FLOWISE_ENDPOINTS"
  shows "buildUrl inh m name None = baseUrl (config m) @ endpointPath \<and>
    (subPath \<noteq> [] \<longrightarrow>
      buildUrl inh m name (Some subPath) = baseUrl (config m) @ endpointPath @ ''/'' @ subPath) \<and>
    (baseUrl (config m) = ''https://api.flowiseai.com'' \<longrightarrow>
      buildUrl inh m ''ping'' None = ''https://api.flowiseai.com/api/v1/ping'') \<and>
    buildUrl inh m ''prediction'' (Some ''abc123'') =
      baseUrl (config m) @ ''/api/v1/prediction/abc123''"
  by (simp add: buildUrl_row [OF assms] buildUrl_row [OF assms(1) ping_row]
      buildUrl_row [OF assms(1) prediction_row])

theorem buildUrl_known_witness:
  "buildUrl Map.empty (flowiseConfig \<lparr>FLOWISE_API_KEY = None, FLOWISE_BASE_URL = None\<rparr>)
     ''vectorUpsert'' None = ''https://api.flowiseai.com/api/v1/vector-upsert'' \<and>
   buildUrl Map.empty (flowiseConfig \<lparr>FLOWISE_API_KEY = None, FLOWISE_BASE_URL = None\<rparr>)
     ''vectorUpsert'' (Some ''abc123'') = ''https://api.flowiseai.com/api/v1/vector-upsert/abc123'' \<and>
   buildUrl Map.empty (flowiseConfig \<lparr>FLOWISE_API_KEY = None, FLOWISE_BASE_URL = None\<rparr>)
     ''ping'' None = ''https://api.flowiseai.com/api/v1/ping'' \<and>
   buildUrl Map.empty (flowiseConfig \<lparr>FLOWISE_API_KEY = None, FLOWISE_BASE_URL = None\<rparr>)
     ''prediction'' (Some ''abc123'') = ''https://api.flowiseai.com/api/v1/prediction/abc123''"
proof -
  have row: "(''vectorUpsert'', ''/api/v1/vector-upsert'') \<in> set FLOWISE_ENDPOINTS"
    by (simp add: FLOWISE_ENDPOINTS_def)
  show ?thesis
    using buildUrl_known [where subPath = "''abc123''" and inh = Map.empty,
        OF flowiseConfig_endpoints [of "\<lparr>FLOWISE_API_KEY = None, FLOWISE_BASE_URL = None\<rparr>"] row]
    by (simp add: flowiseConfig_config)
qed

text \<open>
  C10. For every known endpoint name, \<open>buildUrl\<close> called with the empty string as the
  sub-path returns what it returns with no sub-path at all: the base URL followed by the
  endpoint path, with no slash behind it. The sub-path is tested for truthiness, not for
  presence.
\<close>

theorem buildUrl_empty_subPath:
  assumes "endpoints m = FLOWISE_ENDPOINTS" and "(name, endpointPath) \<in> set FLOWISE_ENDPOINTS"
  shows "buildUrl inh m name (Some '''') = buildUrl inh m name None \<and>
    buildUrl inh m name (Some '''') = baseUrl (config m) @ endpointPath"
  by (simp add: buildUrl_row [OF assms])

theorem buildUrl_empty_subPath_witness:
  "buildUrl Map.empty (flowiseConfig \<lparr>FLOWISE_API_KEY = None, FLOWISE_BASE_URL = None\<rparr>)
     ''prediction'' (Some '''') =
   buildUrl Map.empty (flowiseConfig \<lparr>FLOWISE_API_KEY = None, FLOWISE_BASE_URL = None\<rparr>)
     ''prediction'' None \<and>
   buildUrl Map.empty (flowiseConfig \<lparr>FLOWISE_API_KEY = None, FLOWISE_BASE_URL = None\<rparr>)
     ''prediction'' (Some '''') = ''https://api.flowiseai.com/api/v1/prediction''"
  using buildUrl_empty_subPath [where inh = Map.empty,
      OF flowiseConfig_endpoints [of "\<lparr>FLOWISE_API_KEY = None, FLOWISE_BASE_URL = None\<rparr>"] prediction_row]
  by (auto simp: flowiseConfig_config)

section \<open>Validation\<close>

lemma validate_errors:
  "errors (validate m) =
     (if apiKey (config m) = [] then [''FLOWISE_API_KEY is required''] else []) @
     (if baseUrl (config m) = [] then [''FLOWISE_BASE_URL is required''] else []) @
     (if startsWith (baseUrl (config m)) ''http'' then []
      else [''FLOWISE_BASE_URL must start with http:// or https://''])"
  by (simp add: validate_def Let_def truthy_string_def)

lemma validate_valid: "valid (validate m) = (errors (validate m) = [])"
  by (simp add: validate_def Let_def)

lemma validation_eq: "v = \<lparr>valid = valid v, errors = errors v\<rparr>" for v :: validation
  by simp

text \<open>
  C2. Claim: for a configuration record whose apiKey is the empty string and whose
  baseUrl is the empty string, \<open>validate\<close> returns exactly two error messages, the
  apiKey one and then the baseUrl one. On an instance constructed with an empty baseUrl
  (and no API key in the environment) it returns three: the prefix test runs on the empty
  baseUrl too, and the empty string does not start with \<^verbatim>\<open>http\<close>.
\<close>

theorem validate_empty_counterexample:
  "(let m = constructor \<lparr>FLOWISE_API_KEY = None, FLOWISE_BASE_URL = None\<rparr>
              (Some (empty_partial\<lparr>p_baseUrl := Present ''''\<rparr>))
    in apiKey (config m) = '''' \<and> baseUrl (config m) = '''' \<and>
       errors (validate m) =
         [''FLOWISE_API_KEY is required'', ''FLOWISE_BASE_URL is required'',
          ''FLOWISE_BASE_URL must start with http:// or https://''] \<and>
       length (errors (validate m)) \<noteq> 2)"
  by (simp add: validate_errors startsWith_def constructor_def Let_def spread_def
      empty_partial_def DEFAULT_FLOWISE_CONFIG_def or_string_def)

text \<open>
  C2, amended. For a configuration record whose apiKey is the empty string and whose
  baseUrl is the empty string, \<open>validate\<close> returns exactly three error messages, in
  the order apiKey missing, baseUrl missing, baseUrl without the protocol prefix, and the
  record is not valid.
\<close>

theorem validate_empty:
  assumes "apiKey (config m) = ''''" and "baseUrl (config m) = ''''"
  shows "validate m =
      \<lparr>valid = False,
       errors = [''FLOWISE_API_KEY is required'', ''FLOWISE_BASE_URL is required'',
                 ''FLOWISE_BASE_URL must start with http:// or https://'']\<rparr> \<and>
    length (errors (validate m)) = 3"
proof -
  have e: "errors (validate m) =
      [''FLOWISE_API_KEY is required'', ''FLOWISE_BASE_URL is required'',
       ''FLOWISE_BASE_URL must start with http:// or https://'']"
    by (simp add: validate_errors assms startsWith_def)
  have v: "valid (validate m) = False"
    by (simp add: validate_valid e)
  show ?thesis
    using validation_eq [of "validate m"] by (simp add: e v)
qed

theorem validate_empty_witness:
  "validate \<lparr>config = \<lparr>apiKey = '''', baseUrl = '''', timeout = None, retries = None,
                         enableLogging = None, enableCaching = None\<rparr>,
             endpoints = FLOWISE_ENDPOINTS\<rparr> =
     \<lparr>valid = False,
      errors = [''FLOWISE_API_KEY is required'', ''FLOWISE_BASE_URL is required'',
                ''FLOWISE_BASE_URL must start with http:// or https://'']\<rparr>"
  using validate_empty [of "\<lparr>config = \<lparr>apiKey = '''', baseUrl = '''', timeout = None,
      retries = None, enableLogging = None, enableCaching = None\<rparr>,
      endpoints = FLOWISE_ENDPOINTS\<rparr>"]
  by simp

text \<open>
  C7. For every configuration record, \<open>validate\<close> returns \<open>valid\<close> true if and only
  if its error list is empty; on a record with apiKey \<^verbatim>\<open>k\<close> and baseUrl \<^verbatim>\<open>ftp://x\<close>
  it returns exactly one error, the protocol-prefix message, and \<open>valid\<close> false.
\<close>

theorem validate_valid_iff:
  "(valid (validate m) \<longleftrightarrow> errors (validate m) = []) \<and>
   (apiKey (config m) = ''k'' \<and> baseUrl (config m) = ''ftp://x'' \<longrightarrow>
      validate m =
        \<lparr>valid = False,
         errors = [''FLOWISE_BASE_URL must start with http:// or https://'']\<rparr>)"
proof -
  have "validate m =
      \<lparr>valid = False, errors = [''FLOWISE_BASE_URL must start with http:// or https://'']\<rparr>"
    if k: "apiKey (config m) = ''k''" and u: "baseUrl (config m) = ''ftp://x''"
  proof -
    have e: "errors (validate m) = [''FLOWISE_BASE_URL must start with http:// or https://'']"
      by (simp add: validate_errors k u startsWith_def)
    have v: "valid (validate m) = False"
      by (simp add: validate_valid e)
    show ?thesis
      using validation_eq [of "validate m"] by (simp add: e v)
  qed
  then show ?thesis
    by (simp add: validate_valid)
qed

theorem validate_valid_iff_witness:
  "(let m = constructor \<lparr>FLOWISE_API_KEY = None, FLOWISE_BASE_URL = None\<rparr>
              (Some (empty_partial\<lparr>p_apiKey := Present ''k'', p_baseUrl := Present ''ftp://x''\<rparr>))
    in validate m =
         \<lparr>valid = False,
          errors = [''FLOWISE_BASE_URL must start with http:// or https://'']\<rparr>) \<and>
   (let m = constructor \<lparr>FLOWISE_API_KEY = Some ''k'', FLOWISE_BASE_URL = None\<rparr> None
    in valid (validate m) \<and> errors (validate m) = [])"
proof -
  show ?thesis
    using validate_valid_iff [of "constructor \<lparr>FLOWISE_API_KEY = None, FLOWISE_BASE_URL = None\<rparr>
            (Some (empty_partial\<lparr>p_apiKey := Present ''k'', p_baseUrl := Present ''ftp://x''\<rparr>))"]
      validate_valid_iff [of "constructor \<lparr>FLOWISE_API_KEY = Some ''k'', FLOWISE_BASE_URL = None\<rparr> None"]
    by (simp add: validate_errors startsWith_def constructor_def Let_def spread_def
        empty_partial_def DEFAULT_FLOWISE_CONFIG_def or_string_def truthy_string_def)
qed

section \<open>Construction and update\<close>

lemma spread_field_case:
  "spread_field old p = (case p of Absent \<Rightarrow> old | Present v \<Rightarrow> v)"
  by (cases p) simp_all

lemma or_string_case:
  "or_string x d = (case x of None \<Rightarrow> d | Some s \<Rightarrow> if s = [] then d else s)"
  by (simp add: or_string_def truthy_string_def split: option.splits)

text \<open>
  C4. For any partial record \<open>P\<close> supplied at construction, \<open>getConfig\<close> afterwards
  is the default record with each field present in \<open>P\<close> in the place of the default
  and every field absent from \<open>P\<close> at its default: the apiKey from
  \<^verbatim>\<open>FLOWISE_API_KEY\<close> or empty, the baseUrl from \<^verbatim>\<open>FLOWISE_BASE_URL\<close> or the
  fallback host, the timeout 30000, 3 retries and both flags true. With no argument the
  record is the default one.
\<close>

theorem constructor_getConfig:
  "getConfig (constructor env (Some P)) =
     \<lparr>apiKey = (case p_apiKey P of
                  Absent \<Rightarrow> (case FLOWISE_API_KEY env of None \<Rightarrow> '''' | Some k \<Rightarrow> k)
                | Present v \<Rightarrow> v),
      baseUrl = (case p_baseUrl P of
                   Absent \<Rightarrow> (case FLOWISE_BASE_URL env of
                                None \<Rightarrow> ''https://api.flowiseai.com''
                              | Some u \<Rightarrow> if u = [] then ''https://api.flowiseai.com'' else u)
                 | Present v \<Rightarrow> v),
      timeout = (case p_timeout P of Absent \<Rightarrow> Some (Finite 30000) | Present v \<Rightarrow> v),
      retries = (case p_retries P of Absent \<Rightarrow> Some (Finite 3) | Present v \<Rightarrow> v),
      enableLogging = (case p_enableLogging P of Absent \<Rightarrow> Some True | Present v \<Rightarrow> v),
      enableCaching = (case p_enableCaching P of Absent \<Rightarrow> Some True | Present v \<Rightarrow> v)\<rparr> \<and>
   getConfig (constructor env None) =
     \<lparr>apiKey = (case FLOWISE_API_KEY env of None \<Rightarrow> '''' | Some k \<Rightarrow> k),
      baseUrl = (case FLOWISE_BASE_URL env of
                   None \<Rightarrow> ''https://api.flowiseai.com''
                 | Some u \<Rightarrow> if u = [] then ''https://api.flowiseai.com'' else u),
      timeout = Some (Finite 30000), retries = Some (Finite 3),
      enableLogging = Some True, enableCaching = Some True\<rparr>"
  by (simp add: getConfig_def constructor_def Let_def spread_def spread_field_case
      DEFAULT_FLOWISE_CONFIG_def or_string_case empty_partial_def
      split: optional.splits option.splits)

theorem constructor_getConfig_witness:
  "getConfig (constructor \<lparr>FLOWISE_API_KEY = Some ''secret'', FLOWISE_BASE_URL = Some ''''\<rparr>
     (Some (empty_partial\<lparr>p_timeout := Present (Some (Finite 5000)),
                           p_enableLogging := Present (Some False),
                           p_retries := Present None\<rparr>))) =
     \<lparr>apiKey = ''secret'', baseUrl = ''https://api.flowiseai.com'',
      timeout = Some (Finite 5000), retries = None,
      enableLogging = Some False, enableCaching = Some True\<rparr>"
  using constructor_getConfig [of "\<lparr>FLOWISE_API_KEY = Some ''secret'', FLOWISE_BASE_URL = Some ''''\<rparr>"
      "empty_partial\<lparr>p_timeout := Present (Some (Finite 5000)),
                     p_enableLogging := Present (Some False),
                     p_retries := Present None\<rparr>"]
  by (simp add: empty_partial_def)

text \<open>
  C6. For every prior configuration record and every partial record given to
  \<open>updateConfig\<close>, only the fields present in the partial record change: a field that
  is present takes the given value, a field that is absent keeps its prior value, and the
  endpoint table stays. The update is stored as it is, with no validation: nothing in the
  result depends on what \<open>validate\<close> says. \<^verbatim>\<open>updateConfig({timeout: 5000})\<close>
  changes the timeout field alone.
\<close>

theorem updateConfig_frame:
  "apiKey (config (updateConfig m P)) =
     (case p_apiKey P of Absent \<Rightarrow> apiKey (config m) | Present v \<Rightarrow> v) \<and>
   baseUrl (config (updateConfig m P)) =
     (case p_baseUrl P of Absent \<Rightarrow> baseUrl (config m) | Present v \<Rightarrow> v) \<and>
   timeout (config (updateConfig m P)) =
     (case p_timeout P of Absent \<Rightarrow> timeout (config m) | Present v \<Rightarrow> v) \<and>
   retries (config (updateConfig m P)) =
     (case p_retries P of Absent \<Rightarrow> retries (config m) | Present v \<Rightarrow> v) \<and>
   enableLogging (config (updateConfig m P)) =
     (case p_enableLogging P of Absent \<Rightarrow> enableLogging (config m) | Present v \<Rightarrow> v) \<and>
   enableCaching (config (updateConfig m P)) =
     (case p_enableCaching P of Absent \<Rightarrow> enableCaching (config m) | Present v \<Rightarrow> v) \<and>
   endpoints (updateConfig m P) = endpoints m \<and>
   updateConfig m (empty_partial\<lparr>p_timeout := Present (Some (Finite 5000))\<rparr>) =
     m\<lparr>config := (config m)\<lparr>timeout := Some (Finite 5000)\<rparr>\<rparr> \<and>
   updateConfig m empty_partial = m"
  by (simp add: updateConfig_def spread_def spread_field_case empty_partial_def)

text \<open>The instance of the witness: an update that makes the record invalid is stored all
  the same, and the other five fields and the table are those of before.\<close>

theorem updateConfig_frame_witness:
  "(let m = flowiseConfig \<lparr>FLOWISE_API_KEY = Some ''secret'', FLOWISE_BASE_URL = None\<rparr>;
        m' = updateConfig m (empty_partial\<lparr>p_baseUrl := Present ''ftp://x''\<rparr>)
    in valid (validate m) \<and> \<not> valid (validate m') \<and>
       baseUrl (config m') = ''ftp://x'' \<and>
       apiKey (config m') = apiKey (config m) \<and>
       timeout (config m') = timeout (config m) \<and>
       retries (config m') = retries (config m) \<and>
       enableLogging (config m') = enableLogging (config m) \<and>
       enableCaching (config m') = enableCaching (config m) \<and>
       endpoints m' = endpoints m)"
  using updateConfig_frame [of "flowiseConfig \<lparr>FLOWISE_API_KEY = Some ''secret'', FLOWISE_BASE_URL = None\<rparr>"
      "empty_partial\<lparr>p_baseUrl := Present ''ftp://x''\<rparr>"]
  by (simp add: Let_def empty_partial_def validate_valid validate_errors startsWith_def
      flowiseConfig_def constructor_def spread_def DEFAULT_FLOWISE_CONFIG_def or_string_def
      truthy_string_def)

section \<open>Headers\<close>

text \<open>
  C5. For every configuration record, \<open>getHeaders\<close> returns a mapping that holds
  exactly \<^verbatim>\<open>Content-Type: application/json\<close> and
  \<^verbatim>\<open>User-Agent: Zania-Platform/1.0.0\<close>, and besides them
  \<^verbatim>\<open>Authorization: Bearer <apiKey>\<close> if and only if the apiKey is not empty. With the
  apiKey \<^verbatim>\<open>secret\<close> the entry is \<^verbatim>\<open>Bearer secret\<close>; with the empty apiKey there
  is no such entry.
\<close>

theorem getHeaders_contents:
  "getHeaders m =
     [(''Content-Type'', ''application/json''), (''User-Agent'', ''Zania-Platform/1.0.0'')] @
     (if apiKey (config m) = [] then []
      else [(''Authorization'', ''Bearer '' @ apiKey (config m))]) \<and>
   map_of (getHeaders m) ''Content-Type'' = Some ''application/json'' \<and>
   map_of (getHeaders m) ''User-Agent'' = Some ''Zania-Platform/1.0.0'' \<and>
   map_of (getHeaders m) ''Authorization'' =
     (if apiKey (config m) = [] then None else Some (''Bearer '' @ apiKey (config m))) \<and>
   (''Authorization'' \<in> fst ` set (getHeaders m) \<longleftrightarrow> apiKey (config m) \<noteq> []) \<and>
   (apiKey (config m) = ''secret'' \<longrightarrow>
      map_of (getHeaders m) ''Authorization'' = Some ''Bearer secret'')"
  by (simp add: getHeaders_def Let_def truthy_string_def)

theorem getHeaders_contents_witness:
  "getHeaders (constructor \<lparr>FLOWISE_API_KEY = Some ''secret'', FLOWISE_BASE_URL = None\<rparr> None) =
     [(''Content-Type'', ''application/json''), (''User-Agent'', ''Zania-Platform/1.0.0''),
      (''Authorization'', ''Bearer secret'')] \<and>
   getHeaders (constructor \<lparr>FLOWISE_API_KEY = Some '''', FLOWISE_BASE_URL = None\<rparr> None) =
     [(''Content-Type'', ''application/json''), (''User-Agent'', ''Zania-Platform/1.0.0'')] \<and>
   map_of (getHeaders (constructor \<lparr>FLOWISE_API_KEY = Some '''', FLOWISE_BASE_URL = None\<rparr> None))
     ''Authorization'' = None"
  using getHeaders_contents [of "constructor \<lparr>FLOWISE_API_KEY = Some ''secret'', FLOWISE_BASE_URL = None\<rparr> None"]
    getHeaders_contents [of "constructor \<lparr>FLOWISE_API_KEY = Some '''', FLOWISE_BASE_URL = None\<rparr> None"]
  by (simp add: constructor_def Let_def spread_def empty_partial_def DEFAULT_FLOWISE_CONFIG_def
      or_string_def truthy_string_def)

section \<open>Accessors\<close>

lemma or_number_case:
  "or_number x d =
     (case x of None \<Rightarrow> d
      | Some n \<Rightarrow> if n = Finite 0 \<or> n = NegZero \<or> n = NaN then d else n)"
proof (cases x)
  case None
  then show ?thesis by (simp add: or_number_def)
next
  case (Some n)
  then show ?thesis by (cases n) (simp_all add: or_number_def)
qed

text \<open>
  C8. Claim: for every configuration record, \<open>getTimeout\<close> returns 30000 when the
  stored timeout is 0 or unset, and the stored timeout otherwise. A stored timeout
  \<^verbatim>\<open>NaN\<close> is a number that is neither 0 nor unset, and it is falsy: the method returns
  30000, not the stored value.
\<close>

theorem getTimeout_NaN_counterexample:
  "(let m = updateConfig (flowiseConfig \<lparr>FLOWISE_API_KEY = None, FLOWISE_BASE_URL = None\<rparr>)
              (empty_partial\<lparr>p_timeout := Present (Some NaN)\<rparr>)
    in timeout (config m) = Some NaN \<and> NaN \<noteq> Finite 0 \<and> NaN \<noteq> NegZero \<and>
       getTimeout m = Finite 30000 \<and> getTimeout m \<noteq> NaN)"
  by (simp add: getTimeout_def or_number_def updateConfig_def spread_def empty_partial_def)

text \<open>
  C8, amended. For every configuration record, \<open>getTimeout\<close> returns 30000 when the
  stored timeout is falsy, that is 0 (of either sign), \<^verbatim>\<open>NaN\<close> or unset, and the
  stored timeout otherwise.
\<close>

theorem getTimeout_falsy:
  "getTimeout m =
     (case timeout (config m) of
        None \<Rightarrow> Finite 30000
      | Some n \<Rightarrow> if n = Finite 0 \<or> n = NegZero \<or> n = NaN then Finite 30000 else n)"
  by (simp add: getTimeout_def or_number_case)

theorem getTimeout_falsy_witness:
  "(let m = flowiseConfig \<lparr>FLOWISE_API_KEY = None, FLOWISE_BASE_URL = None\<rparr>
    in getTimeout (updateConfig m (empty_partial\<lparr>p_timeout := Present (Some (Finite 5000))\<rparr>)) =
         Finite 5000 \<and>
       getTimeout (updateConfig m (empty_partial\<lparr>p_timeout := Present (Some (Finite 0))\<rparr>)) =
         Finite 30000 \<and>
       getTimeout (updateConfig m (empty_partial\<lparr>p_timeout := Present None\<rparr>)) =
         Finite 30000 \<and>
       getTimeout (updateConfig m (empty_partial\<lparr>p_timeout := Present (Some PosInfinity)\<rparr>)) =
         PosInfinity)"
  using
    getTimeout_falsy [of "updateConfig (flowiseConfig \<lparr>FLOWISE_API_KEY = None, FLOWISE_BASE_URL = None\<rparr>)
      (empty_partial\<lparr>p_timeout := Present (Some (Finite 5000))\<rparr>)"]
    getTimeout_falsy [of "updateConfig (flowiseConfig \<lparr>FLOWISE_API_KEY = None, FLOWISE_BASE_URL = None\<rparr>)
      (empty_partial\<lparr>p_timeout := Present (Some (Finite 0))\<rparr>)"]
    getTimeout_falsy [of "updateConfig (flowiseConfig \<lparr>FLOWISE_API_KEY = None, FLOWISE_BASE_URL = None\<rparr>)
      (empty_partial\<lparr>p_timeout := Present None\<rparr>)"]
    getTimeout_falsy [of "updateConfig (flowiseConfig \<lparr>FLOWISE_API_KEY = None, FLOWISE_BASE_URL = None\<rparr>)
      (empty_partial\<lparr>p_timeout := Present (Some PosInfinity)\<rparr>)"]
  by (simp add: Let_def updateConfig_def spread_def empty_partial_def)

text \<open>
  C9. For every configuration record, \<open>isLoggingEnabled\<close> and \<open>isCachingEnabled\<close>
  return false when the corresponding flag is explicitly false, and fall back to true
  only when the stored flag is absent: they return the stored flag when there is one and
  true when there is none, so an unset flag (default true) is told apart from an explicit
  false.
\<close>

theorem flags_nullish:
  "isLoggingEnabled m = (case enableLogging (config m) of None \<Rightarrow> True | Some b \<Rightarrow> b) \<and>
   isCachingEnabled m = (case enableCaching (config m) of None \<Rightarrow> True | Some b \<Rightarrow> b) \<and>
   (enableLogging (config m) = Some False \<longrightarrow> \<not> isLoggingEnabled m) \<and>
   (enableCaching (config m) = Some False \<longrightarrow> \<not> isCachingEnabled m) \<and>
   (enableLogging (config m) = None \<longrightarrow> isLoggingEnabled m) \<and>
   (enableCaching (config m) = None \<longrightarrow> isCachingEnabled m) \<and>
   (enableLogging (config m) \<noteq> Some (isLoggingEnabled m) \<longrightarrow> enableLogging (config m) = None) \<and>
   (enableCaching (config m) \<noteq> Some (isCachingEnabled m) \<longrightarrow> enableCaching (config m) = None)"
  by (cases "enableLogging (config m)"; cases "enableCaching (config m)")
    (simp_all add: isLoggingEnabled_def isCachingEnabled_def nullish_def)

theorem flags_nullish_witness:
  "(let m = flowiseConfig \<lparr>FLOWISE_API_KEY = None, FLOWISE_BASE_URL = None\<rparr>;
        off = updateConfig m (empty_partial\<lparr>p_enableLogging := Present (Some False),
                                          p_enableCaching := Present (Some False)\<rparr>);
        unset = updateConfig m (empty_partial\<lparr>p_enableLogging := Present None,
                                            p_enableCaching := Present None\<rparr>)
    in enableLogging (config m) = Some True \<and> enableCaching (config m) = Some True \<and>
       isLoggingEnabled m \<and> isCachingEnabled m \<and>
       \<not> isLoggingEnabled off \<and> \<not> isCachingEnabled off \<and>
       enableLogging (config unset) = None \<and> enableCaching (config unset) = None \<and>
       isLoggingEnabled unset \<and> isCachingEnabled unset)"
  using
    flags_nullish [of "flowiseConfig \<lparr>FLOWISE_API_KEY = None, FLOWISE_BASE_URL = None\<rparr>"]
    flags_nullish [of "updateConfig (flowiseConfig \<lparr>FLOWISE_API_KEY = None, FLOWISE_BASE_URL = None\<rparr>)
      (empty_partial\<lparr>p_enableLogging := Present (Some False),
                     p_enableCaching := Present (Some False)\<rparr>)"]
    flags_nullish [of "updateConfig (flowiseConfig \<lparr>FLOWISE_API_KEY = None, FLOWISE_BASE_URL = None\<rparr>)
      (empty_partial\<lparr>p_enableLogging := Present None, p_enableCaching := Present None\<rparr>)"]
  by (simp add: Let_def updateConfig_def spread_def empty_partial_def flowiseConfig_config
      del: not_None_eq)

end
